theory Spec2Isabelle
  imports Main "HOL-Library.Multiset" "HOL-Library.Word"
begin

section \<open>Data model\<close>

text \<open>
  The program is \<^verbatim>\<open>src/app.py\<close>: a Streamlit script that loads an uploaded
  workbook, lets the user edit one sheet and offers the rebuilt workbook for download.

  A Python \<^verbatim>\<open>str\<close> is modelled by its UTF-8 encoding, a \<^typ>\<open>string\<close>. The
  program only concatenates strings, compares them for equality and tests them for
  emptiness, and the encoding commutes with all three.

  An exception is a value carrying its message; \<open>str_exc\<close> is Python's \<^verbatim>\<open>str(exc)\<close>.
\<close>

datatype exn = Exception string

fun str_exc :: "exn \<Rightarrow> string" where
  "str_exc (Exception msg) = msg"

text \<open>
  A \<^verbatim>\<open>pandas.DataFrame\<close>: the header and the rows. The program never looks inside
  a cell, so the cell type is a parameter. \<open>shape0\<close> and \<open>shape1\<close> are
  \<^verbatim>\<open>df.shape[0]\<close> and \<^verbatim>\<open>df.shape[1]\<close>.
\<close>

record 'c data_frame =
  columns :: "string list"
  rows :: "'c list list"

definition shape0 :: "'c data_frame \<Rightarrow> nat" where
  "shape0 df = length (rows df)"

definition shape1 :: "'c data_frame \<Rightarrow> nat" where
  "shape1 df = length (columns df)"

text \<open>\<^verbatim>\<open>pd.DataFrame()\<close>: no column, no row.\<close>

definition empty_frame :: "'c data_frame" where
  "empty_frame = \<lparr>columns = [], rows = []\<rparr>"

text \<open>
  A \<^verbatim>\<open>pandas.ExcelFile\<close>: the sheet names in file order, and \<^verbatim>\<open>xl.parse(name)\<close>,
  which returns the sheet's table or raises.
\<close>

record 'c excel_file =
  sheet_names :: "string list"
  parse :: "string \<Rightarrow> exn + 'c data_frame"

text \<open>
  The workbook held by a \<^verbatim>\<open>pd.ExcelWriter\<close>, as it is read back from the
  bytes that \<^verbatim>\<open>output.getvalue()\<close> returns: its sheets in order, each with its
  title and its table.

  \<^verbatim>\<open>df.to_excel(writer, index=False, sheet_name=name)\<close> is a call into pandas and
  openpyxl. What it does to the workbook is not code of this program and is a parameter
  \<open>engine\<close> of the model: given the workbook so far, the sheet name and the table, the
  library raises or returns the workbook with the sheet written. The library is free in
  the title it gives the sheet, in where it puts it and in what it stores of the table.
\<close>

type_synonym 'c workbook = "(string \<times> 'c data_frame) list"

type_synonym 'c engine = "'c workbook \<Rightarrow> string \<Rightarrow> 'c data_frame \<Rightarrow> exn + 'c workbook"

definition to_excel ::
  "'c engine \<Rightarrow> 'c data_frame \<Rightarrow> 'c workbook \<Rightarrow> string \<Rightarrow> exn + 'c workbook" where
  "to_excel engine df writer sheet_name = engine writer sheet_name df"

section \<open>Workbook writer\<close>

text \<open>
  Lines 88 to 91 of \<^verbatim>\<open>write_workbook\<close>:
  \<^verbatim>\<open>
  try:
      df_other = xl.parse(name)
  except Exception:
      df_other = pd.DataFrame()
  \<close>
\<close>

definition df_other :: "'c excel_file \<Rightarrow> string \<Rightarrow> 'c data_frame" where
  "df_other xl nm = (case parse xl nm of Inl exc \<Rightarrow> empty_frame | Inr df \<Rightarrow> df)"

text \<open>
  The loop of lines 85 to 92 over \<^verbatim>\<open>xl.sheet_names\<close>; the list argument is
  what is left of the iteration. An exception of \<^verbatim>\<open>to_excel\<close> ends the loop.
\<close>

fun copy_other_sheets ::
  "'c engine \<Rightarrow> string \<Rightarrow> 'c excel_file \<Rightarrow> string list \<Rightarrow> 'c workbook \<Rightarrow> exn + 'c workbook" where
  "copy_other_sheets engine sheet_name xl [] writer = Inr writer"
| "copy_other_sheets engine sheet_name xl (nm # nms) writer =
     (if nm = sheet_name then copy_other_sheets engine sheet_name xl nms writer
      else
        (case to_excel engine (df_other xl nm) writer nm of
           Inl exc \<Rightarrow> Inl exc
         | Inr writer' \<Rightarrow> copy_other_sheets engine sheet_name xl nms writer'))"

text \<open>
  \<^verbatim>\<open>write_workbook(edits, sheet_name, xl)\<close>: the edited sheet first, then the loop.
  An exception raised inside the \<^verbatim>\<open>with\<close> block leaves the function.
\<close>

definition write_workbook ::
  "'c engine \<Rightarrow> 'c data_frame \<Rightarrow> string \<Rightarrow> 'c excel_file \<Rightarrow> exn + 'c workbook" where
  "write_workbook engine edits sheet_name xl =
     (case to_excel engine edits [] sheet_name of
        Inl exc \<Rightarrow> Inl exc
      | Inr writer \<Rightarrow> copy_other_sheets engine sheet_name xl (sheet_names xl) writer)"

section \<open>The writer's contract and the library\<close>

text \<open>
  The contract of the Workbook Writer in the specification (4.3), to compare
  \<open>write_workbook\<close> with: the sheets of a list are handed to the writer one after the
  other, and the first exception ends the writing.
\<close>

fun write_in_order ::
  "'c engine \<Rightarrow> 'c workbook \<Rightarrow> (string \<times> 'c data_frame) list \<Rightarrow> exn + 'c workbook" where
  "write_in_order engine writer [] = Inr writer"
| "write_in_order engine writer ((nm, df) # sheets) =
     (case engine writer nm df of
        Inl exc \<Rightarrow> Inl exc
      | Inr writer' \<Rightarrow> write_in_order engine writer' sheets)"

text \<open>
  Two things the library may or may not do when the sheets of a list are handed to it
  in order, starting from a given workbook. \<open>stored_as_given\<close>: every call adds the
  sheet at the end, under the name and with the table it was given. \<open>names_kept\<close>:
  every call returns a workbook whose titles are the former ones followed by the name it
  was given; the tables are left open.
\<close>

fun stored_as_given ::
  "'c engine \<Rightarrow> 'c workbook \<Rightarrow> (string \<times> 'c data_frame) list \<Rightarrow> bool" where
  "stored_as_given engine writer [] = True"
| "stored_as_given engine writer ((nm, df) # sheets) =
     (engine writer nm df = Inr (writer @ [(nm, df)]) \<and>
      stored_as_given engine (writer @ [(nm, df)]) sheets)"

fun names_kept ::
  "'c engine \<Rightarrow> 'c workbook \<Rightarrow> (string \<times> 'c data_frame) list \<Rightarrow> bool" where
  "names_kept engine writer [] = True"
| "names_kept engine writer ((nm, df) # sheets) =
     (case engine writer nm df of
        Inl exc \<Rightarrow> False
      | Inr writer' \<Rightarrow> map fst writer' = map fst writer @ [nm] \<and> names_kept engine writer' sheets)"

section \<open>Interaction shell\<close>

text \<open>
  The file handed over by \<^verbatim>\<open>st.sidebar.file_uploader\<close>: its name and its bytes.
\<close>

record uploaded_file =
  name :: string
  data :: "8 word list"

text \<open>
  What one run of the script shows, in order. Only the calls whose content depends on
  the run are recorded; the page configuration, the title, the instructions and the
  sidebar legend of lines 97 to 112 are the same in every run and are left out, and so
  are the fixed labels of the widgets. \<open>DownloadButton\<close> carries \<^verbatim>\<open>data\<close>,
  \<^verbatim>\<open>file_name\<close> and \<^verbatim>\<open>mime\<close>.
\<close>

datatype 'c ui =
    Info string
  | Error string
  | Selectbox "string list"
  | Metric string nat
  | Subheader string
  | Caption string
  | AgGridWidget "'c data_frame"
  | DataEditorWidget "'c data_frame"
  | Markdown string
  | DownloadButton "'c workbook" string string

text \<open>
  Everything a run reads from outside the script: whether \<^verbatim>\<open>st_aggrid\<close> can be
  imported, the uploaded file if any, \<^verbatim>\<open>pd.ExcelFile\<close>, the value the sheet selector
  returns for given options, the table each grid widget returns for the table it is
  given, and the writer engine.
\<close>

record 'c host =
  aggrid_available :: bool
  file_uploader :: "uploaded_file option"
  pd_ExcelFile :: "uploaded_file \<Rightarrow> exn + 'c excel_file"
  selectbox :: "string list \<Rightarrow> string option"
  AgGrid :: "'c data_frame \<Rightarrow> 'c data_frame"
  data_editor :: "'c data_frame \<Rightarrow> 'c data_frame"
  openpyxl :: "'c engine"

text \<open>
  The two bytes of the UTF-8 encoding of U+00E9 and of U+00C9. The caption of line 149
  has a no-break space, U+00A0, before its semicolon: the bytes C2 A0.
\<close>

definition e_acute :: string where
  "e_acute = [CHR 0xC3, CHR 0xA9]"

definition E_acute :: string where
  "E_acute = [CHR 0xC3, CHR 0x89]"

definition no_file_message :: string where
  "no_file_message =
     ''Aucun fichier s'' @ e_acute @ ''lectionn'' @ e_acute @ ''. Veuillez s'' @ e_acute @
     ''lectionner un fichier `.xlsx`.''"

definition no_sheet_message :: string where
  "no_sheet_message = ''Ce classeur ne contient aucune feuille.''"

definition aggrid_caption :: string where
  "aggrid_caption =
     ''Vous pouvez trier, filtrer et '' @ e_acute @
     ''diter les cellules directement dans la grille.''"

definition fallback_caption :: string where
  "fallback_caption =
     ''Module AgGrid non disponible'' @ [CHR 0xC2, CHR 0xA0] @ ''; utilisation de l'' @
     [CHR 0x27] @ e_acute @
     ''diteur Streamlit int'' @ e_acute @ ''gr'' @ e_acute @ ''.''"

text \<open>The prefix of line 158 and the media type of line 159.\<close>

definition edit_marker :: string where
  "edit_marker = ''modifi'' @ e_acute @ ''_''"

definition xlsx_mime :: string where
  "xlsx_mime = ''application/vnd.openxmlformats-officedocument.spreadsheetml.sheet''"

text \<open>
  \<^verbatim>\<open>load_excel(file)\<close>: on an exception of \<^verbatim>\<open>pd.ExcelFile\<close> it shows the
  error and raises the exception again.
\<close>

definition load_excel :: "'c host \<Rightarrow> uploaded_file \<Rightarrow> 'c ui list \<times> (exn + 'c excel_file)" where
  "load_excel h file =
     (case pd_ExcelFile h file of
        Inr xl \<Rightarrow> ([], Inr xl)
      | Inl exc \<Rightarrow> ([Error (''Failed to read Excel file: '' @ str_exc exc)], Inl exc))"

text \<open>
  The two grids: each shows the table it is given and returns what the widget returns.
\<close>

definition build_aggrid_table :: "'c host \<Rightarrow> 'c data_frame \<Rightarrow> 'c ui list \<times> 'c data_frame" where
  "build_aggrid_table h df = ([AgGridWidget df], AgGrid h df)"

definition build_data_editor_table :: "'c host \<Rightarrow> 'c data_frame \<Rightarrow> 'c ui list \<times> 'c data_frame" where
  "build_data_editor_table h df = ([DataEditorWidget df], data_editor h df)"

text \<open>
  \<^verbatim>\<open>main()\<close>: the result is what was shown and, when an exception leaves
  \<^verbatim>\<open>main\<close>, that exception. \<^verbatim>\<open>if not sheet_name\<close> holds for \<^verbatim>\<open>None\<close> and
  for the empty string.
\<close>

definition main :: "'c host \<Rightarrow> 'c ui list \<times> exn option" where
  "main h =
     (case file_uploader h of
        None \<Rightarrow> ([Info no_file_message], None)
      | Some uploaded \<Rightarrow>
          (case load_excel h uploaded of
             (shown, Inl exc) \<Rightarrow> (shown, Some exc)
           | (shown, Inr xl) \<Rightarrow>
               (let sheets = sheet_names xl in
                if sheets = [] then (shown @ [Error no_sheet_message], None)
                else
                  (case selectbox h sheets of
                     None \<Rightarrow> (shown @ [Selectbox sheets], None)
                   | Some sheet_name \<Rightarrow>
                       if sheet_name = [] then (shown @ [Selectbox sheets], None)
                       else
                         (case parse xl sheet_name of
                            Inl exc \<Rightarrow>
                              (shown @ [Selectbox sheets,
                                 Error (''Impossible de lire la feuille '' @ [CHR 0x27] @ sheet_name @
                                        [CHR 0x27] @ '': '' @ str_exc exc)], None)
                          | Inr df \<Rightarrow>
                              (let (grid, edited_df) =
                                     (if aggrid_available h
                                      then (Caption aggrid_caption # fst (build_aggrid_table h df),
                                            snd (build_aggrid_table h df))
                                      else (Caption fallback_caption # fst (build_data_editor_table h df),
                                            snd (build_data_editor_table h df)));
                                   shown' = shown @
                                     [Selectbox sheets,
                                      Metric ''Lignes'' (shape0 df), Metric ''Colonnes'' (shape1 df),
                                      Subheader (E_acute @ ''dition de la feuille : '' @ sheet_name)] @
                                     grid @ [Markdown ''---'']
                               in (case write_workbook (openpyxl h) edited_df sheet_name xl of
                                     Inl exc \<Rightarrow> (shown', Some exc)
                                   | Inr data_bytes \<Rightarrow>
                                       (shown' @
                                          [DownloadButton data_bytes (edit_marker @ name uploaded) xlsx_mime],
                                        None))))))))"

section \<open>Example inputs\<close>

text \<open>
  A workbook with three sheets, the third unreadable; the tables are those of the
  example scenario of the specification.
\<close>

definition data_df :: "int data_frame" where
  "data_df = \<lparr>columns = [''a'', ''b''], rows = [[1, 2], [3, 4]]\<rparr>"

definition notes_df :: "int data_frame" where
  "notes_df = \<lparr>columns = [''n''], rows = [[7]]\<rparr>"

definition example_xl :: "int excel_file" where
  "example_xl =
     \<lparr>sheet_names = [''Notes'', ''Data'', ''Broken''],
      parse = (\<lambda>nm. if nm = ''Data'' then Inr data_df
                     else if nm = ''Notes'' then Inr notes_df
                     else Inl (Exception ''unreadable''))\<rparr>"

text \<open>
  An engine that stores every sheet as it is given, and one that raises on a table
  without columns.
\<close>

definition verbatim_engine :: "int engine" where
  "verbatim_engine writer nm df = Inr (writer @ [(nm, df)])"


text \<open>
  Two things pandas with openpyxl does, each on the inputs of the examples below. A title
  that equals one already in the workbook up to the case of its letters is stored with
  a number appended: \<^verbatim>\<open>data\<close> after \<^verbatim>\<open>Data\<close> becomes \<^verbatim>\<open>data1\<close>, and
  \<^verbatim>\<open>Data\<close> after \<^verbatim>\<open>data\<close> becomes \<^verbatim>\<open>Data1\<close>. For a table without columns
  no cell is written, so that the sheet read back has no row.
\<close>

definition renaming_engine :: "int engine" where
  "renaming_engine writer nm df =
     Inr (writer @
       [(if nm = ''data'' \<and> ''Data'' \<in> set (map fst writer) then ''data1''
         else if nm = ''Data'' \<and> ''data'' \<in> set (map fst writer) then ''Data1''
         else nm, df)])"


text \<open>
  A workbook whose two sheet names differ in the case of a letter only, one whose names
  do not, and one whose only sheet is empty.
\<close>

definition case_xl :: "int excel_file" where
  "case_xl =
     \<lparr>sheet_names = [''Data'', ''data''],
      parse = (\<lambda>nm. if nm = ''Data'' then Inr data_df
                     else if nm = ''data'' then Inr notes_df
                     else Inl (Exception ''unreadable''))\<rparr>"

definition notes_data_xl :: "int excel_file" where
  "notes_data_xl =
     \<lparr>sheet_names = [''Notes'', ''Data''],
      parse = (\<lambda>nm. if nm = ''Data'' then Inr data_df
                     else if nm = ''Notes'' then Inr notes_df
                     else Inl (Exception ''unreadable''))\<rparr>"


text \<open>An upload, and the data editor of a user who appends one row.\<close>

definition example_upload :: uploaded_file where
  "example_upload = \<lparr>name = ''book.xlsx'', data = [0x50, 0x4B, 0x03, 0x04]\<rparr>"

definition add_row :: "int data_frame \<Rightarrow> int data_frame" where
  "add_row df = df\<lparr>rows := rows df @ [[5, 6]]\<rparr>"

definition example_host :: "int host" where
  "example_host =
     \<lparr>aggrid_available = False,
      file_uploader = Some example_upload,
      pd_ExcelFile = (\<lambda>file. Inr example_xl),
      selectbox = (\<lambda>options. Some ''Data''),
      AgGrid = (\<lambda>df. df),
      data_editor = add_row,
      openpyxl = verbatim_engine\<rparr>"



text \<open>The same upload when it is not a workbook, and when the workbook has no sheet.\<close>

definition corrupt_host :: "int host" where
  "corrupt_host = example_host\<lparr>pd_ExcelFile := (\<lambda>file. Inl (Exception ''File is not a zip file''))\<rparr>"

definition sheetless_host :: "int host" where
  "sheetless_host =
     example_host\<lparr>pd_ExcelFile := (\<lambda>file. Inr (example_xl\<lparr>sheet_names := []\<rparr>))\<rparr>"

section \<open>Properties of the writer\<close>

text \<open>
  \<open>write_workbook\<close> hands the writer the edited table and then the other sheets, in
  order: it meets the contract. Then what follows when the library stores the sheets as
  given, when it keeps their names, when it raises and when it never does.
\<close>

lemma copy_other_sheets_in_order:
  "copy_other_sheets engine sheet_name xl nms writer =
     write_in_order engine writer
       (map (\<lambda>nm. (nm, df_other xl nm)) (filter (\<lambda>nm. nm \<noteq> sheet_name) nms))"
proof (induction nms arbitrary: writer)
  case Nil
  show ?case by simp
next
  case (Cons nm nms)
  show ?case
  proof (cases "nm = sheet_name")
    case True
    with Cons show ?thesis by simp
  next
    case False
    with Cons show ?thesis by (simp add: to_excel_def split: sum.splits)
  qed
qed

lemma write_workbook_in_order:
  "write_workbook engine edits sheet_name xl =
     write_in_order engine []
       ((sheet_name, edits) #
        map (\<lambda>nm. (nm, df_other xl nm)) (filter (\<lambda>nm. nm \<noteq> sheet_name) (sheet_names xl)))"
  by (simp add: write_workbook_def to_excel_def copy_other_sheets_in_order split: sum.splits)

lemma write_in_order_as_given:
  "stored_as_given engine writer sheets \<Longrightarrow> write_in_order engine writer sheets = Inr (writer @ sheets)"
  by (induction engine writer sheets rule: stored_as_given.induct) simp_all

lemma write_in_order_names:
  "names_kept engine writer sheets \<Longrightarrow>
   \<exists>out. write_in_order engine writer sheets = Inr out \<and> map fst out = map fst writer @ map fst sheets"
proof (induction engine writer sheets rule: names_kept.induct)
  case (1 engine writer)
  show ?case by simp
next
  case (2 engine writer nm df sheets)
  from "2.prems" obtain writer' where step: "engine writer nm df = Inr writer'"
    and names: "map fst writer' = map fst writer @ [nm]"
    and rest: "names_kept engine writer' sheets"
    by (auto split: sum.splits)
  from "2.IH" [OF step rest] obtain out where
    "write_in_order engine writer' sheets = Inr out" "map fst out = map fst writer' @ map fst sheets"
    by blast
  with step names show ?case by simp
qed





subsection \<open>Round trip\<close>




subsection \<open>Sheet set\<close>

text \<open>
  Claim C2, as the program behaves. When the selected name is one of the handle's sheet
  names and the library keeps the name of every sheet it is handed, the set of sheet
  names of the workbook written is the set of sheet names of the handle. Nothing is
  assumed about \<open>parse\<close>, so this holds when pass-through sheets are unreadable.
\<close>

theorem sheet_set_preserved:
  assumes "sheet_name \<in> set (sheet_names xl)"
    and "names_kept engine []
           ((sheet_name, edits) #
            map (\<lambda>nm. (nm, df_other xl nm)) (filter (\<lambda>nm. nm \<noteq> sheet_name) (sheet_names xl)))"
  shows "\<exists>out. write_workbook engine edits sheet_name xl = Inr out \<and>
           set (map fst out) = set (sheet_names xl)"
proof -
  from write_in_order_names [OF assms(2)] obtain out where
    written: "write_workbook engine edits sheet_name xl = Inr out"
    and names: "map fst out = sheet_name # filter (\<lambda>nm. nm \<noteq> sheet_name) (sheet_names xl)"
    by (auto simp: write_workbook_in_order comp_def)
  have "set (map fst out) = insert sheet_name (set (sheet_names xl) - {sheet_name})"
    unfolding names by auto
  with assms(1) have "set (map fst out) = set (sheet_names xl)"
    by (simp add: insert_absorb)
  with written show ?thesis by blast
qed

theorem sheet_set_preserved_witness:
  "''Notes'' \<in> set (sheet_names example_xl) \<and> isl (parse example_xl ''Broken'') \<and>
   names_kept verbatim_engine []
     [(''Notes'', data_df), (''Data'', data_df), (''Broken'', empty_frame)] \<and>
   write_workbook verbatim_engine data_df ''Notes'' example_xl =
     Inr [(''Notes'', data_df), (''Data'', data_df), (''Broken'', empty_frame)] \<and>
   set [''Notes'', ''Data'', ''Broken''] = set (sheet_names example_xl)"
  using sheet_set_preserved [of "''Notes''" example_xl verbatim_engine data_df]
  by (simp add: example_xl_def verbatim_engine_def write_workbook_def to_excel_def df_other_def)

text \<open>
  Claim C2 as stated speaks of every handle and every selected name. With the sheets
  \<^verbatim>\<open>Data\<close> and \<^verbatim>\<open>data\<close> and the first selected, the set of names written
  differs from the handle's.
\<close>

theorem sheet_set_changed:
  "''Data'' \<in> set (sheet_names case_xl) \<and>
   write_workbook renaming_engine (add_row data_df) ''Data'' case_xl =
     Inr [(''Data'', add_row data_df), (''data1'', notes_df)] \<and>
   set (map fst [(''Data'', add_row data_df), (''data1'', notes_df)]) \<noteq> set (sheet_names case_xl)"
  by (simp add: case_xl_def renaming_engine_def write_workbook_def to_excel_def df_other_def
      insert_eq_iff)

subsection \<open>Order of the sheets\<close>

text \<open>
  Claim C3, as the program behaves. For every edited table, selected name and handle,
  \<open>write_workbook\<close> hands the writer the edited table under the selected name first,
  and then every sheet of the handle with another name, under that name and in the
  handle's order. The workbook written has the sheets under these names and in this
  order when the library keeps the names, and is this very list of sheets when the
  library stores them as given.
\<close>

theorem output_sheet_order:
  "write_workbook engine edits sheet_name xl =
     write_in_order engine []
       ((sheet_name, edits) #
        map (\<lambda>nm. (nm, df_other xl nm)) (filter (\<lambda>nm. nm \<noteq> sheet_name) (sheet_names xl))) \<and>
   (names_kept engine []
       ((sheet_name, edits) #
        map (\<lambda>nm. (nm, df_other xl nm)) (filter (\<lambda>nm. nm \<noteq> sheet_name) (sheet_names xl))) \<longrightarrow>
    (\<exists>out. write_workbook engine edits sheet_name xl = Inr out \<and>
       map fst out = sheet_name # filter (\<lambda>nm. nm \<noteq> sheet_name) (sheet_names xl))) \<and>
   (stored_as_given engine []
       ((sheet_name, edits) #
        map (\<lambda>nm. (nm, df_other xl nm)) (filter (\<lambda>nm. nm \<noteq> sheet_name) (sheet_names xl))) \<longrightarrow>
    write_workbook engine edits sheet_name xl =
      Inr ((sheet_name, edits) #
           map (\<lambda>nm. (nm, df_other xl nm)) (filter (\<lambda>nm. nm \<noteq> sheet_name) (sheet_names xl))))"
proof (intro conjI impI)
  let ?sheets = "(sheet_name, edits) #
        map (\<lambda>nm. (nm, df_other xl nm)) (filter (\<lambda>nm. nm \<noteq> sheet_name) (sheet_names xl))"
  show "write_workbook engine edits sheet_name xl = write_in_order engine [] ?sheets"
    by (rule write_workbook_in_order)
  {
    assume "names_kept engine [] ?sheets"
    from write_in_order_names [OF this]
    show "\<exists>out. write_workbook engine edits sheet_name xl = Inr out \<and>
       map fst out = sheet_name # filter (\<lambda>nm. nm \<noteq> sheet_name) (sheet_names xl)"
      by (auto simp: write_workbook_in_order comp_def)
  }
  {
    assume "stored_as_given engine [] ?sheets"
    from write_in_order_as_given [OF this]
    show "write_workbook engine edits sheet_name xl = Inr ?sheets"
      by (simp add: write_workbook_in_order)
  }
qed

theorem output_sheet_order_witness:
  "stored_as_given verbatim_engine []
     [(''Data'', add_row data_df), (''Notes'', notes_df), (''Broken'', empty_frame)] \<and>
   names_kept verbatim_engine []
     [(''Data'', add_row data_df), (''Notes'', notes_df), (''Broken'', empty_frame)] \<and>
   write_workbook verbatim_engine (add_row data_df) ''Data'' example_xl =
     Inr [(''Data'', add_row data_df), (''Notes'', notes_df), (''Broken'', empty_frame)]"
  using output_sheet_order [of verbatim_engine "add_row data_df" "''Data''" example_xl]
  by (simp add: example_xl_def verbatim_engine_def df_other_def)

text \<open>
  Claim C3 as stated has every other sheet written under its original name. With the
  sheets \<^verbatim>\<open>Data\<close> and \<^verbatim>\<open>data\<close> and the second selected, no sheet of the workbook
  written is called \<^verbatim>\<open>Data\<close>.
\<close>

theorem sheet_not_under_its_name:
  "''Data'' \<in> set (sheet_names case_xl) \<and>
   write_workbook renaming_engine notes_df ''data'' case_xl =
     Inr [(''data'', notes_df), (''Data1'', data_df)] \<and>
   ''Data'' \<notin> set (map fst [(''data'', notes_df), (''Data1'', data_df)])"
  by (simp add: case_xl_def renaming_engine_def write_workbook_def to_excel_def df_other_def)

subsection \<open>Recovery from unreadable sheets\<close>



subsection \<open>Row growth\<close>




subsection \<open>Selected name outside the handle\<close>

text \<open>
  Claim C10, as the program behaves. When the library keeps the name of every sheet it
  is handed, \<open>write_workbook\<close> returns a workbook also for a selected name that is not
  a sheet name of the handle: its names are then the selected name followed by all the
  names of the handle, one sheet more than the handle has. The set of names written
  equals the handle's exactly when the selected name is one of the handle's.
\<close>

theorem selected_name_not_a_member:
  assumes "names_kept engine []
           ((sheet_name, edits) #
            map (\<lambda>nm. (nm, df_other xl nm)) (filter (\<lambda>nm. nm \<noteq> sheet_name) (sheet_names xl)))"
  shows "\<exists>out. write_workbook engine edits sheet_name xl = Inr out \<and>
           (sheet_name \<notin> set (sheet_names xl) \<longrightarrow>
              map fst out = sheet_name # sheet_names xl \<and>
              length out = length (sheet_names xl) + 1) \<and>
           (set (map fst out) = set (sheet_names xl) \<longleftrightarrow> sheet_name \<in> set (sheet_names xl))"
proof -
  let ?others = "filter (\<lambda>nm. nm \<noteq> sheet_name) (sheet_names xl)"
  from write_in_order_names [OF assms] obtain out where
    written: "write_workbook engine edits sheet_name xl = Inr out"
    and names: "map fst out = sheet_name # ?others"
    by (auto simp: write_workbook_in_order comp_def)
  have absent: "sheet_name \<notin> set (sheet_names xl) \<longrightarrow>
      map fst out = sheet_name # sheet_names xl \<and> length out = length (sheet_names xl) + 1"
  proof
    assume "sheet_name \<notin> set (sheet_names xl)"
    then have others: "?others = sheet_names xl"
      by (simp add: filter_id_conv) blast
    have "length out = length (map fst out)" by simp
    also have "\<dots> = length (sheet_names xl) + 1" unfolding names others by simp
    finally show "map fst out = sheet_name # sheet_names xl \<and> length out = length (sheet_names xl) + 1"
      using names others by simp
  qed
  have "set (map fst out) = insert sheet_name (set (sheet_names xl))"
    unfolding names by auto
  then have iff: "set (map fst out) = set (sheet_names xl) \<longleftrightarrow> sheet_name \<in> set (sheet_names xl)"
    by auto
  show ?thesis
    by (rule exI [of _ out]) (intro conjI written absent iff)
qed

theorem selected_name_not_a_member_witness:
  "''New'' \<notin> set (sheet_names example_xl) \<and>
   names_kept verbatim_engine []
     [(''New'', data_df), (''Notes'', notes_df), (''Data'', data_df), (''Broken'', empty_frame)] \<and>
   write_workbook verbatim_engine data_df ''New'' example_xl =
     Inr [(''New'', data_df), (''Notes'', notes_df), (''Data'', data_df), (''Broken'', empty_frame)] \<and>
   set [''New'', ''Notes'', ''Data'', ''Broken''] \<noteq> set (sheet_names example_xl)"
  using selected_name_not_a_member [of verbatim_engine "''New''" data_df example_xl]
  by (simp add: example_xl_def verbatim_engine_def write_workbook_def to_excel_def df_other_def)

text \<open>
  Claim C10 as stated has one sheet per original name beside the edited one. With the
  sheets \<^verbatim>\<open>Notes\<close> and \<^verbatim>\<open>Data\<close> and the selected name \<^verbatim>\<open>data\<close>, the sheet
  \<^verbatim>\<open>Data\<close> is stored under another title.
\<close>

theorem outside_name_renames_a_sheet:
  "''data'' \<notin> set (sheet_names notes_data_xl) \<and>
   write_workbook renaming_engine data_df ''data'' notes_data_xl =
     Inr [(''data'', data_df), (''Notes'', notes_df), (''Data1'', data_df)] \<and>
   map fst [(''data'', data_df), (''Notes'', notes_df), (''Data1'', data_df)] \<noteq>
     ''data'' # sheet_names notes_data_xl"
  by (simp add: notes_data_xl_def renaming_engine_def write_workbook_def to_excel_def df_other_def)

section \<open>Properties of the shell\<close>

subsection \<open>Download name\<close>

text \<open>
  Claim C8. Every download button a run shows carries as file name the UTF-8 encoding of
  \<^verbatim>\<open>modifi\<close>, U+00E9 and \<^verbatim>\<open>_\<close> followed by the name of the uploaded file, and
  as media type the one registered for \<^verbatim>\<open>.xlsx\<close> workbooks, the only extension the
  uploader accepts.
\<close>

theorem download_name_derivation:
  assumes "file_uploader h = Some file"
    and "DownloadButton d fn m \<in> set (fst (main h))"
  shows "fn = ''modifi'' @ [CHR 0xC3, CHR 0xA9] @ ''_'' @ name file \<and>
         m = ''application/vnd.openxmlformats-officedocument.spreadsheetml.sheet''"
  using assms
  by (auto simp: main_def load_excel_def Let_def build_aggrid_table_def build_data_editor_table_def
      edit_marker_def e_acute_def xlsx_mime_def
      split: sum.splits option.splits if_splits)

theorem download_name_derivation_witness:
  "file_uploader example_host = Some example_upload \<and>
   main example_host =
     ([Selectbox [''Notes'', ''Data'', ''Broken''],
       Metric ''Lignes'' 2, Metric ''Colonnes'' 2,
       Subheader ([CHR 0xC3, CHR 0x89] @ ''dition de la feuille : Data''),
       Caption (''Module AgGrid non disponible'' @ [CHR 0xC2, CHR 0xA0] @ ''; utilisation de l'' @
                [CHR 0x27, CHR 0xC3, CHR 0xA9] @ ''diteur Streamlit int'' @ [CHR 0xC3, CHR 0xA9] @
                ''gr'' @ [CHR 0xC3, CHR 0xA9] @ ''.''),
       DataEditorWidget data_df,
       Markdown ''---'',
       DownloadButton [(''Data'', add_row data_df), (''Notes'', notes_df), (''Broken'', empty_frame)]
         (''modifi'' @ [CHR 0xC3, CHR 0xA9] @ ''_book.xlsx'')
         ''application/vnd.openxmlformats-officedocument.spreadsheetml.sheet''], None)"
  using download_name_derivation [of example_host example_upload
      "[(''Data'', add_row data_df), (''Notes'', notes_df), (''Broken'', empty_frame)]"
      "''modifi'' @ [CHR 0xC3, CHR 0xA9] @ ''_book.xlsx''"
      "''application/vnd.openxmlformats-officedocument.spreadsheetml.sheet''"]
  by (simp add: main_def load_excel_def Let_def build_data_editor_table_def example_host_def
      example_upload_def example_xl_def verbatim_engine_def write_workbook_def to_excel_def
      df_other_def shape0_def shape1_def data_df_def edit_marker_def e_acute_def E_acute_def
      xlsx_mime_def fallback_caption_def)

subsection \<open>Workbook without sheets\<close>

text \<open>
  Claim C6. When the upload loads and the handle has no sheet name, the run shows the
  error and nothing else, and ends without an exception: no sheet selector, no grid and
  no download button are shown, and the result depends neither on \<open>parse\<close> nor on
  the grids nor on the writer.
\<close>

theorem empty_workbook_guard:
  assumes "file_uploader h = Some file"
    and "pd_ExcelFile h file = Inr xl"
    and "sheet_names xl = []"
  shows "main h = ([Error no_sheet_message], None)"
  using assms by (simp add: main_def load_excel_def)

theorem empty_workbook_guard_witness:
  "file_uploader sheetless_host = Some example_upload \<and>
   (\<exists>xl. pd_ExcelFile sheetless_host example_upload = Inr xl \<and> sheet_names xl = []) \<and>
   main sheetless_host = ([Error ''Ce classeur ne contient aucune feuille.''], None)"
  using empty_workbook_guard [of sheetless_host example_upload "example_xl\<lparr>sheet_names := []\<rparr>"]
  by (simp add: sheetless_host_def example_host_def no_sheet_message_def)

subsection \<open>Upload that is not a workbook\<close>

text \<open>
  Claim C5, as the program behaves. When \<^verbatim>\<open>pd.ExcelFile\<close> raises on the upload,
  \<open>load_excel\<close> shows the error, returns no handle and raises the exception again;
  it leaves \<open>main\<close>, and the run shows nothing but that error.
\<close>

theorem corrupt_upload_raises:
  assumes "file_uploader h = Some file"
    and "pd_ExcelFile h file = Inl exc"
  shows "load_excel h file = ([Error (''Failed to read Excel file: '' @ str_exc exc)], Inl exc) \<and>
         main h = ([Error (''Failed to read Excel file: '' @ str_exc exc)], Some exc)"
  using assms by (simp add: main_def load_excel_def)

theorem corrupt_upload_raises_witness:
  "file_uploader corrupt_host = Some example_upload \<and>
   pd_ExcelFile corrupt_host example_upload = Inl (Exception ''File is not a zip file'') \<and>
   main corrupt_host =
     ([Error ''Failed to read Excel file: File is not a zip file''],
      Some (Exception ''File is not a zip file''))"
  using corrupt_upload_raises [of corrupt_host example_upload "Exception ''File is not a zip file''"]
  by (simp add: corrupt_host_def example_host_def)

text \<open>
  Claim C5 as stated says that the exception does not escape. On an upload that is
  not a zip archive it does.
\<close>

theorem corrupt_upload_escapes:
  "pd_ExcelFile corrupt_host example_upload = Inl (Exception ''File is not a zip file'') \<and>
   snd (main corrupt_host) = Some (Exception ''File is not a zip file'')"
  by (simp add: main_def load_excel_def corrupt_host_def example_host_def)

end
